theory Spec2Isabelle
  imports Complex_Main "HOL-Library.Multiset" "HOL-Library.Sublist"
begin

section \<open>The token table of \<^verbatim>\<open>src/components/AxiomTradeTable.tsx\<close>\<close>

text \<open>
  The component keeps a list of token records, perturbs their prices on a timer, and
  derives the visible rows by sorting and by filtering on the stage tab. JavaScript
  numbers are modelled as \<^typ>\<open>real\<close>; the results of \<^verbatim>\<open>Math.random()\<close> and
  \<^verbatim>\<open>Date.now()\<close> are inputs of the model.
\<close>

subsection \<open>Types\<close>

datatype chain = ETH | BSC | SOL

datatype status = New_pairs | Final_Stretch | Migrated

text \<open>
  The type \<^verbatim>\<open>Token\<close>. The fields \<^verbatim>\<open>id\<close> and \<^verbatim>\<open>chain\<close> carry a suffix, since HOL
  has constants of these names.
\<close>

record token =
  id_tok :: string
  name :: string
  symbol :: string
  chain_tok :: chain
  pair :: string
  status :: status
  marketCap :: real
  priceUSD :: real
  volume24h :: real
  liquidity :: real
  launchTime :: real
  score :: real

datatype trend = Up | Down | Neutral

text \<open>The type \<^verbatim>\<open>PriceState\<close>; its fields are \<^verbatim>\<open>priceUSD\<close> and \<^verbatim>\<open>trend\<close> in the source.\<close>

record priceState =
  priceUSD_prev :: real
  trend :: trend

type_synonym priceHistory = "string \<rightharpoonup> priceState"

datatype direction = Asc | Desc

text \<open>\<^verbatim>\<open>keyof Token\<close>.\<close>

datatype tokenKey =
  K_id | K_name | K_symbol | K_chain | K_pair | K_status
  | K_marketCap | K_priceUSD | K_volume24h | K_liquidity | K_launchTime | K_score

text \<open>The type \<^verbatim>\<open>SortState\<close>; \<^verbatim>\<open>key: null\<close> is \<^term>\<open>None\<close>.\<close>

record sortState =
  key :: "tokenKey option"
  direction :: direction

text \<open>The values a field of a token can hold at run time, and what \<^verbatim>\<open>typeof\<close> says of them.\<close>

datatype jsval = Num real | Str string | Undefined

datatype jstype = T_number | T_string | T_undefined

fun typeof :: "jsval \<Rightarrow> jstype" where
  "typeof (Num x) = T_number"
| "typeof (Str s) = T_string"
| "typeof Undefined = T_undefined"

fun chain_label :: "chain \<Rightarrow> string" where
  "chain_label ETH = ''ETH''"
| "chain_label BSC = ''BSC''"
| "chain_label SOL = ''SOL''"

fun status_label :: "status \<Rightarrow> string" where
  "status_label New_pairs = ''New pairs''"
| "status_label Final_Stretch = ''Final Stretch''"
| "status_label Migrated = ''Migrated''"

text \<open>The property access \<^verbatim>\<open>token[key]\<close>.\<close>

fun field :: "tokenKey \<Rightarrow> token \<Rightarrow> jsval" where
  "field K_id t = Str (id_tok t)"
| "field K_name t = Str (name t)"
| "field K_symbol t = Str (symbol t)"
| "field K_chain t = Str (chain_label (chain_tok t))"
| "field K_pair t = Str (pair t)"
| "field K_status t = Str (status_label (status t))"
| "field K_marketCap t = Num (marketCap t)"
| "field K_priceUSD t = Num (priceUSD t)"
| "field K_volume24h t = Num (volume24h t)"
| "field K_liquidity t = Num (liquidity t)"
| "field K_launchTime t = Num (launchTime t)"
| "field K_score t = Num (score t)"

subsection \<open>\<^verbatim>\<open>useTokenDiscovery\<close>: the sort state and the sorted list\<close>

text \<open>
  \<^verbatim>\<open>typeof tokens[0]?.[key]\<close>: on the empty list \<^verbatim>\<open>tokens[0]\<close> is undefined, the
  optional chain yields undefined, and its type is \<^verbatim>\<open>'undefined'\<close>.
\<close>

definition typeof_first :: "token list \<Rightarrow> tokenKey \<Rightarrow> jstype" where
  "typeof_first tokens k =
     (case tokens of [] \<Rightarrow> typeof Undefined | t # _ \<Rightarrow> typeof (field k t))"

text \<open>The state update that \<^verbatim>\<open>handleSort(key)\<close> applies to the previous sort state.\<close>

definition handleSort :: "token list \<Rightarrow> tokenKey \<Rightarrow> sortState \<Rightarrow> sortState" where
  "handleSort tokens k prev =
     (if key prev = Some k then
        \<lparr>key = Some k, direction = (if direction prev = Asc then Desc else Asc)\<rparr>
      else
        \<lparr>key = Some k,
         direction = (if typeof_first tokens k = T_string \<or> k = K_status then Asc else Desc)\<rparr>)"

text \<open>
  \<^verbatim>\<open>String.prototype.localeCompare\<close> is a built-in of the runtime. It is represented by
  the comparison of the strings character by character on their codes, which gives the
  built-in's sign on strings that first differ in two capital letters, as the three stage
  labels do.
\<close>

fun localeCompare :: "string \<Rightarrow> string \<Rightarrow> int" where
  "localeCompare [] [] = 0"
| "localeCompare [] (y # ys) = - 1"
| "localeCompare (x # xs) [] = 1"
| "localeCompare (x # xs) (y # ys) =
     (if (of_char x :: nat) < of_char y then - 1
      else if (of_char y :: nat) < of_char x then 1
      else localeCompare xs ys)"

text \<open>\<^verbatim>\<open>order.indexOf(v)\<close> for \<^verbatim>\<open>order = ['New pairs', 'Final Stretch', 'Migrated']\<close>.\<close>

definition order_indexOf :: "jsval \<Rightarrow> int" where
  "order_indexOf v =
     (if v = Str ''New pairs'' then 0
      else if v = Str ''Final Stretch'' then 1
      else if v = Str ''Migrated'' then 2
      else - 1)"

text \<open>The comparator passed to \<^verbatim>\<open>sort\<close>, with the branches in the order of the source.\<close>

definition compare_tokens :: "tokenKey \<Rightarrow> direction \<Rightarrow> token \<Rightarrow> token \<Rightarrow> real" where
  "compare_tokens k d a b =
     (let aVal = field k a;
          bVal = field k b;
          comparison =
            (if typeof aVal = T_number \<and> typeof bVal = T_number then
               (case (aVal, bVal) of (Num x, Num y) \<Rightarrow> x - y | _ \<Rightarrow> 0)
             else if typeof aVal = T_string \<and> typeof bVal = T_string then
               (case (aVal, bVal) of (Str s, Str u) \<Rightarrow> real_of_int (localeCompare s u) | _ \<Rightarrow> 0)
             else if k = K_status then
               real_of_int (order_indexOf aVal - order_indexOf bVal)
             else 0)
      in if d = Asc then comparison else - comparison)"

text \<open>
  \<^verbatim>\<open>Array.prototype.sort\<close> with a comparator is a stable sort: an element moves in front
  of another only when the comparator is positive for the pair in their current order.
  Insertion from the right end of the list does exactly that.
\<close>

fun insert_by :: "('a \<Rightarrow> 'a \<Rightarrow> real) \<Rightarrow> 'a \<Rightarrow> 'a list \<Rightarrow> 'a list" where
  "insert_by cmp x [] = [x]"
| "insert_by cmp x (y # ys) =
     (if cmp x y \<le> 0 then x # y # ys else y # insert_by cmp x ys)"

fun sort_by :: "('a \<Rightarrow> 'a \<Rightarrow> real) \<Rightarrow> 'a list \<Rightarrow> 'a list" where
  "sort_by cmp [] = []"
| "sort_by cmp (x # xs) = insert_by cmp x (sort_by cmp xs)"

definition sortedTokens :: "token list \<Rightarrow> sortState \<Rightarrow> token list" where
  "sortedTokens tokens sortState =
     (case key sortState of
        None \<Rightarrow> tokens
      | Some k \<Rightarrow> sort_by (compare_tokens k (direction sortState)) tokens)"

subsection \<open>\<^verbatim>\<open>App.filteredTokens\<close>: the stage tabs\<close>

datatype tab = All | Stage status

definition filteredTokens :: "token list \<Rightarrow> tab \<Rightarrow> token list" where
  "filteredTokens sortedToks activeTab =
     (case activeTab of
        All \<Rightarrow> sortedToks
      | Stage s \<Rightarrow> filter (\<lambda>token. status token = s) sortedToks)"

subsection \<open>\<^verbatim>\<open>mockTokens\<close>: the initial list\<close>

text \<open>The decimal numeral that a template string inserts for a natural number.\<close>

definition digit_char :: "nat \<Rightarrow> char" where
  "digit_char d = ''0123456789'' ! d"

function string_of_nat :: "nat \<Rightarrow> string" where
  "string_of_nat n =
     (if n < 10 then [digit_char n]
      else string_of_nat (n div 10) @ [digit_char (n mod 10)])"
  by pat_completeness auto
termination
  by (relation "measure (\<lambda>n. n)") auto

declare string_of_nat.simps [simp del]

text \<open>
  The element that the callback of \<^verbatim>\<open>Array.from({ length: 15 }).map\<close> builds at index
  \<open>i\<close>. It calls \<^verbatim>\<open>Math.random()\<close> three times, for the price, the launch time and
  the score in this order: \<open>rnd\<close> is the sequence of these results over the whole list.
  \<open>now i\<close> is the result of \<^verbatim>\<open>Date.now()\<close> at index \<open>i\<close>.
\<close>

definition mockToken :: "(nat \<Rightarrow> real) \<Rightarrow> (nat \<Rightarrow> real) \<Rightarrow> nat \<Rightarrow> token" where
  "mockToken rnd now i =
     \<lparr>id_tok = ''token-'' @ string_of_nat i,
      name = ''Axiom Token '' @ string_of_nat (i + 1),
      symbol = ''AXM'' @ string_of_nat (i + 1),
      chain_tok = (if i mod 3 = 0 then ETH else if i mod 3 = 1 then BSC else SOL),
      pair = ''WETH/AXM'' @ string_of_nat (i + 1),
      status = (if i < 5 then New_pairs else if i < 10 then Final_Stretch else Migrated),
      marketCap = 1000000 + real i * 500000,
      priceUSD = 0.05 + rnd (3 * i) * 1.5,
      volume24h = 100000 + real i * 20000,
      liquidity = 50000 + real i * 10000,
      launchTime = now i - (real i + 1) * 3600000 * rnd (3 * i + 1),
      score = of_int \<lfloor>rnd (3 * i + 2) * 100\<rfloor>\<rparr>"

definition mockTokens :: "(nat \<Rightarrow> real) \<Rightarrow> (nat \<Rightarrow> real) \<Rightarrow> token list" where
  "mockTokens rnd now = map (mockToken rnd now) [0..<15]"

text \<open>The three stages in the order of the type \<^verbatim>\<open>Token['status']\<close>.\<close>

definition stage_sequence :: "status list" where
  "stage_sequence = [New_pairs, Final_Stretch, Migrated]"

subsection \<open>\<^verbatim>\<open>useRealtimeTokens\<close>: the state of the feed and its timers\<close>

text \<open>The state of the hook; \<^verbatim>\<open>error\<close> is never set and is left out.\<close>

record feed =
  data :: "token list"
  loading :: bool
  priceHistory :: priceHistory

definition initial_feed :: feed where
  "initial_feed = \<lparr>data = [], loading = True, priceHistory = Map.empty\<rparr>"

text \<open>\<^verbatim>\<open>mockTokens.forEach(token => initialHistory[token.id] = ...)\<close>.\<close>

fun initialHistory :: "token list \<Rightarrow> priceHistory \<Rightarrow> priceHistory" where
  "initialHistory [] hist = hist"
| "initialHistory (token # rest) hist =
     initialHistory rest
       (hist(id_tok token \<mapsto> \<lparr>priceUSD_prev = priceUSD token, trend = Neutral\<rparr>))"

text \<open>The callback of the one-shot timer \<^verbatim>\<open>initialLoadTimer\<close>.\<close>

definition initialLoad :: "token list \<Rightarrow> feed \<Rightarrow> feed" where
  "initialLoad mock st =
     st\<lparr>data := mock, loading := False, priceHistory := initialHistory mock Map.empty\<rparr>"

text \<open>The two random factors of a tick, as functions of the draw.\<close>

definition price_factor :: "real \<Rightarrow> real" where
  "price_factor r = 1 + (r - 0.5) * 0.02"

definition volume_factor :: "real \<Rightarrow> real" where
  "volume_factor r = 1 + (r - 0.5) * 0.05"

text \<open>
  The pass \<^verbatim>\<open>data.map(token => ...)\<close> of the interval callback. Each element draws
  twice, first for the price and then for the volume: the element at position \<open>i\<close> of
  the list uses \<open>rnd (n + 2 * i)\<close> and \<open>rnd (n + 2 * i + 1)\<close>. The queued updates
  \<^verbatim>\<open>setPriceHistory(prev => ({ ...prev, [token.id]: ... }))\<close> apply in the order of the
  list, each to the result of the one before; the pass returns the new list together with
  the resulting history.
\<close>

fun tick_tokens ::
  "(nat \<Rightarrow> real) \<Rightarrow> nat \<Rightarrow> token list \<Rightarrow> priceHistory \<Rightarrow> token list \<times> priceHistory" where
  "tick_tokens rnd n [] prev = ([], prev)"
| "tick_tokens rnd n (token # rest) prev =
     (let newPrice = priceUSD token * price_factor (rnd n);
          trend = (if newPrice > priceUSD token then Up
                   else if newPrice < priceUSD token then Down else Neutral);
          prev' = prev(id_tok token \<mapsto> \<lparr>priceUSD_prev = priceUSD token, trend = trend\<rparr>);
          token' = token\<lparr>priceUSD := newPrice,
                     volume24h := volume24h token * volume_factor (rnd (n + 1))\<rparr>;
          (rest', hist) = tick_tokens rnd (n + 2) rest prev'
      in (token' # rest', hist))"

text \<open>The callback of \<^verbatim>\<open>wsMockInterval\<close>: both parts of the state are replaced.\<close>

definition wsMockInterval :: "(nat \<Rightarrow> real) \<Rightarrow> feed \<Rightarrow> feed" where
  "wsMockInterval rnd st =
     (let (updatedData, hist) = tick_tokens rnd 0 (data st) (priceHistory st)
      in st\<lparr>data := updatedData, priceHistory := hist\<rparr>)"

text \<open>
  One period of the timer. The effect installs the interval only when the guard
  \<^verbatim>\<open>if (loading || data.length === 0) return;\<close> lets it: otherwise nothing runs.
\<close>

definition tick :: "(nat \<Rightarrow> real) \<Rightarrow> feed \<Rightarrow> feed" where
  "tick rnd st =
     (if loading st \<or> length (data st) = 0 then st else wsMockInterval rnd st)"

text \<open>The states the hook can be in: the initial one, and those the two timers lead to.\<close>

inductive reachable :: "feed \<Rightarrow> bool" where
  reachable_initial: "reachable initial_feed"
| reachable_load: "reachable st \<Longrightarrow> reachable (initialLoad (mockTokens rnd now) st)"
| reachable_tick: "reachable st \<Longrightarrow> reachable (tick rnd st)"

subsection \<open>Auxiliary definitions\<close>

text \<open>What one element of the pass writes into the history, and what it returns.\<close>

definition observation :: "token \<Rightarrow> real \<Rightarrow> priceState" where
  "observation token r =
     \<lparr>priceUSD_prev = priceUSD token,
      trend = (if priceUSD token * price_factor r > priceUSD token then Up
               else if priceUSD token * price_factor r < priceUSD token then Down
               else Neutral)\<rparr>"

definition perturbed :: "token \<Rightarrow> real \<Rightarrow> real \<Rightarrow> token" where
  "perturbed token r1 r2 =
     token\<lparr>priceUSD := priceUSD token * price_factor r1,
           volume24h := volume24h token * volume_factor r2\<rparr>"

text \<open>Concrete inputs on which the theorems below are exercised.\<close>

definition example_token :: "string \<Rightarrow> status \<Rightarrow> real \<Rightarrow> token" where
  "example_token i s p =
     \<lparr>id_tok = i, name = ''Axiom Token'', symbol = ''AXM'', chain_tok = ETH,
      pair = ''WETH/AXM'', status = s, marketCap = 1000000, priceUSD = p,
      volume24h = 100000, liquidity = 50000, launchTime = 0, score = 50\<rparr>"

definition rnd_const :: "real \<Rightarrow> nat \<Rightarrow> real" where
  "rnd_const r n = r"

definition example_tokens :: "token list" where
  "example_tokens =
     [example_token ''token-0'' New_pairs 1,
      example_token ''token-1'' Final_Stretch 2,
      example_token ''token-2'' Migrated 4]"

definition example_feed :: feed where
  "example_feed = \<lparr>data = example_tokens, loading = False, priceHistory = Map.empty\<rparr>"

text \<open>
  The initial sort state of \<^verbatim>\<open>useTokenDiscovery\<close>, and the sort state for the stage
  column in ascending direction.
\<close>

definition default_sortState :: sortState where
  "default_sortState = \<lparr>key = Some K_marketCap, direction = Desc\<rparr>"

definition sort_by_status :: sortState where
  "sort_by_status = \<lparr>key = Some K_status, direction = Asc\<rparr>"

definition rnd_zero :: "nat \<Rightarrow> real" where
  "rnd_zero n = 0"

definition now_zero :: "nat \<Rightarrow> real" where
  "now_zero n = 0"

section \<open>Properties\<close>

subsection \<open>The pass over the list\<close>

lemma tick_tokens_Cons:
  "tick_tokens rnd n (t # ts) h =
     (perturbed t (rnd n) (rnd (n + 1))
        # fst (tick_tokens rnd (n + 2) ts (h(id_tok t \<mapsto> observation t (rnd n)))),
      snd (tick_tokens rnd (n + 2) ts (h(id_tok t \<mapsto> observation t (rnd n)))))"
  by (simp add: Let_def case_prod_beta observation_def perturbed_def)

lemma tick_tokens_length: "length (fst (tick_tokens rnd n ts h)) = length ts"
  by (induction ts arbitrary: n h) (simp_all add: tick_tokens_Cons del: tick_tokens.simps(2))

lemma tick_tokens_nth:
  "i < length ts \<Longrightarrow>
   fst (tick_tokens rnd n ts h) ! i = perturbed (ts ! i) (rnd (n + 2 * i)) (rnd (n + 2 * i + 1))"
proof (induction ts arbitrary: n h i)
  case Nil
  then show ?case by simp
next
  case (Cons t ts)
  show ?case
  proof (cases i)
    case 0
    then show ?thesis by (simp add: tick_tokens_Cons del: tick_tokens.simps(2))
  next
    case (Suc j)
    with Cons.prems have "j < length ts" by simp
    from Cons.IH [OF this] Suc
    show ?thesis by (simp add: tick_tokens_Cons del: tick_tokens.simps(2))
  qed
qed

lemma tick_tokens_hist_other:
  "k \<notin> id_tok ` set ts \<Longrightarrow> snd (tick_tokens rnd n ts h) k = h k"
  by (induction ts arbitrary: n h) (simp_all add: tick_tokens_Cons del: tick_tokens.simps(2))

lemma tick_tokens_hist_nth:
  "distinct (map id_tok ts) \<Longrightarrow> i < length ts \<Longrightarrow>
   snd (tick_tokens rnd n ts h) (id_tok (ts ! i)) = Some (observation (ts ! i) (rnd (n + 2 * i)))"
proof (induction ts arbitrary: n h i)
  case Nil
  then show ?case by simp
next
  case (Cons t ts)
  show ?case
  proof (cases i)
    case 0
    from Cons.prems have "id_tok t \<notin> id_tok ` set ts" by simp
    from tick_tokens_hist_other [OF this] 0
    show ?thesis by (simp add: tick_tokens_Cons del: tick_tokens.simps(2))
  next
    case (Suc j)
    with Cons.prems have j: "j < length ts" and d: "distinct (map id_tok ts)" by simp_all
    from Cons.IH [OF d j] Suc
    show ?thesis by (simp add: tick_tokens_Cons del: tick_tokens.simps(2))
  qed
qed

lemma tick_tokens_ids: "map id_tok (fst (tick_tokens rnd n ts h)) = map id_tok ts"
  by (induction ts arbitrary: n h)
    (simp_all add: tick_tokens_Cons perturbed_def del: tick_tokens.simps(2))

lemma data_wsMockInterval:
  "data (wsMockInterval rnd st) = fst (tick_tokens rnd 0 (data st) (priceHistory st))"
  by (simp add: wsMockInterval_def case_prod_beta)

lemma priceHistory_wsMockInterval:
  "priceHistory (wsMockInterval rnd st) = snd (tick_tokens rnd 0 (data st) (priceHistory st))"
  by (simp add: wsMockInterval_def case_prod_beta)

lemma loading_wsMockInterval: "loading (wsMockInterval rnd st) = loading st"
  by (simp add: wsMockInterval_def case_prod_beta)

lemma tick_running:
  "\<not> loading st \<Longrightarrow> i < length (data st) \<Longrightarrow> tick rnd st = wsMockInterval rnd st"
  by (auto simp: tick_def)

lemma data_tick_length: "length (data (tick rnd st)) = length (data st)"
  by (simp add: tick_def data_wsMockInterval tick_tokens_length)

lemma data_tick_ids: "map id_tok (data (tick rnd st)) = map id_tok (data st)"
  by (simp add: tick_def data_wsMockInterval tick_tokens_ids)

lemma data_tick_nth:
  "\<not> loading st \<Longrightarrow> i < length (data st) \<Longrightarrow>
   data (tick rnd st) ! i = perturbed (data st ! i) (rnd (2 * i)) (rnd (2 * i + 1))"
  using tick_tokens_nth [of i "data st" rnd 0 "priceHistory st"]
  by (simp add: tick_running data_wsMockInterval)

lemma length_mockTokens: "length (mockTokens rnd now) = 15"
  by (simp add: mockTokens_def)

lemma mockTokens_nth: "i < 15 \<Longrightarrow> mockTokens rnd now ! i = mockToken rnd now i"
  by (simp add: mockTokens_def)

lemma reachable_empty_history:
  "reachable st \<Longrightarrow> data st = [] \<Longrightarrow> priceHistory st = Map.empty"
proof (induction rule: reachable.induct)
  case reachable_initial
  show ?case by (simp add: initial_feed_def)
next
  case (reachable_load st rnd now)
  from reachable_load.prems have "length (mockTokens rnd now) = 0"
    by (simp add: initialLoad_def)
  then show ?case by (simp add: length_mockTokens)
next
  case (reachable_tick st rnd)
  from reachable_tick.prems have "length (data (tick rnd st)) = 0" by simp
  then have e: "data st = []" by (simp add: data_tick_length)
  then have "tick rnd st = st" by (simp add: tick_def)
  with reachable_tick.IH e show ?case by simp
qed

subsection \<open>The states of the hook\<close>

text \<open>
  In every state the hook can be in the ids are pairwise distinct, and the list is empty
  exactly as long as the load has not happened.
\<close>

lemma upt_15: "[0..<15] = [0, 1, 2, 3, 4, 5, 6, 7, 8, 9, 10, 11, 12, 13, 14 :: nat]"
  by (simp add: upt_rec)

lemma mockTokens_ids:
  "map id_tok (mockTokens rnd now) =
     [''token-0'', ''token-1'', ''token-2'', ''token-3'', ''token-4'', ''token-5'', ''token-6'',
      ''token-7'', ''token-8'', ''token-9'', ''token-10'', ''token-11'', ''token-12'',
      ''token-13'', ''token-14'']"
  by (simp add: mockTokens_def mockToken_def upt_15 string_of_nat.simps digit_char_def)

lemma distinct_mockTokens_ids: "distinct (map id_tok (mockTokens rnd now))"
  unfolding mockTokens_ids by simp

lemma reachable_distinct_ids: "reachable st \<Longrightarrow> distinct (map id_tok (data st))"
proof (induction rule: reachable.induct)
  case reachable_initial
  show ?case by (simp add: initial_feed_def)
next
  case (reachable_load st rnd now)
  show ?case by (simp add: initialLoad_def distinct_mockTokens_ids)
next
  case (reachable_tick st rnd)
  then show ?case by (simp add: data_tick_ids)
qed

lemma reachable_running: "reachable st \<Longrightarrow> data st \<noteq> [] \<Longrightarrow> \<not> loading st"
proof (induction rule: reachable.induct)
  case reachable_initial
  then show ?case by (simp add: initial_feed_def)
next
  case (reachable_load st rnd now)
  show ?case by (simp add: initialLoad_def)
next
  case (reachable_tick st rnd)
  from reachable_tick.prems have "length (data (tick rnd st)) \<noteq> 0" by simp
  then have "data st \<noteq> []" by (simp add: data_tick_length)
  with reachable_tick.IH show ?case
    by (simp add: tick_def loading_wsMockInterval)
qed

subsection \<open>The timer tick\<close>

text \<open>
  Claim C2. After one tick, the history entry for the id of a record holds the price the
  record had before the tick, and the trend is \<open>Up\<close> when the new price of the record is
  greater than the old one, \<open>Down\<close> when it is smaller, and \<open>Neutral\<close> when they are
  equal. The ids of the list are pairwise distinct, as the data model requires and as
  \<open>mockTokens\<close> provides; the tick runs, that is the list has been loaded.
\<close>

theorem tick_records_previous_price:
  assumes "distinct (map id_tok (data st))" and "\<not> loading st" and "i < length (data st)"
  shows "priceHistory (tick rnd st) (id_tok (data st ! i)) =
     Some \<lparr>priceUSD_prev = priceUSD (data st ! i),
           trend = (if priceUSD (data (tick rnd st) ! i) > priceUSD (data st ! i) then Up
                    else if priceUSD (data (tick rnd st) ! i) < priceUSD (data st ! i) then Down
                    else Neutral)\<rparr>"
proof -
  have "priceHistory (tick rnd st) (id_tok (data st ! i)) = Some (observation (data st ! i) (rnd (2 * i)))"
    using assms tick_tokens_hist_nth [of "data st" i rnd 0 "priceHistory st"]
    by (simp add: tick_running priceHistory_wsMockInterval)
  moreover have "priceUSD (data (tick rnd st) ! i) = priceUSD (data st ! i) * price_factor (rnd (2 * i))"
    using assms by (simp add: data_tick_nth perturbed_def)
  ultimately show ?thesis
    by (simp add: observation_def)
qed

theorem tick_records_previous_price_witness:
  "distinct (map id_tok (data example_feed)) \<and> \<not> loading example_feed
   \<and> 1 < length (data example_feed)
   \<and> priceUSD (data example_feed ! 1) = 2
   \<and> priceUSD (data (tick (rnd_const 1) example_feed) ! 1) = 2.02
   \<and> priceHistory (tick (rnd_const 1) example_feed) ''token-1''
       = Some \<lparr>priceUSD_prev = 2, trend = Up\<rparr>"
proof -
  have d: "distinct (map id_tok (data example_feed))"
    by (simp add: example_feed_def example_tokens_def example_token_def)
  have l: "\<not> loading example_feed" by (simp add: example_feed_def)
  have i: "1 < length (data example_feed)"
    by (simp add: example_feed_def example_tokens_def)
  have p: "priceUSD (data (tick (rnd_const 1) example_feed) ! 1) = 2.02"
    by (simp add: tick_def wsMockInterval_def example_feed_def example_tokens_def
        example_token_def rnd_const_def price_factor_def volume_factor_def Let_def)
  from tick_records_previous_price [OF d l i, of "rnd_const 1"] p d l i
  show ?thesis
    by (simp add: example_feed_def example_tokens_def example_token_def)
qed

text \<open>
  Claim C7. For draws between 0 and 1, one tick multiplies the price of a record by a
  factor between 0.99 and 1.01, and its 24h volume by a factor between 0.975 and 1.025
  that comes from a draw of its own.
\<close>

theorem tick_perturbation_bounded:
  assumes "\<not> loading st" and "i < length (data st)"
    and "0 \<le> rnd (2 * i)" and "rnd (2 * i) \<le> 1"
    and "0 \<le> rnd (2 * i + 1)" and "rnd (2 * i + 1) \<le> 1"
  shows "priceUSD (data (tick rnd st) ! i) = priceUSD (data st ! i) * price_factor (rnd (2 * i))
    \<and> 0.99 \<le> price_factor (rnd (2 * i)) \<and> price_factor (rnd (2 * i)) \<le> 1.01
    \<and> volume24h (data (tick rnd st) ! i)
         = volume24h (data st ! i) * volume_factor (rnd (2 * i + 1))
    \<and> 0.975 \<le> volume_factor (rnd (2 * i + 1)) \<and> volume_factor (rnd (2 * i + 1)) \<le> 1.025"
proof -
  have "data (tick rnd st) ! i = perturbed (data st ! i) (rnd (2 * i)) (rnd (2 * i + 1))"
    using assms(1,2) by (rule data_tick_nth)
  then have "priceUSD (data (tick rnd st) ! i) = priceUSD (data st ! i) * price_factor (rnd (2 * i))"
    and "volume24h (data (tick rnd st) ! i) = volume24h (data st ! i) * volume_factor (rnd (2 * i + 1))"
    by (simp_all add: perturbed_def)
  moreover have "0.99 \<le> price_factor (rnd (2 * i))" "price_factor (rnd (2 * i)) \<le> 1.01"
    using assms(3,4) by (simp_all add: price_factor_def field_simps)
  moreover have "0.975 \<le> volume_factor (rnd (2 * i + 1))" "volume_factor (rnd (2 * i + 1)) \<le> 1.025"
    using assms(5,6) by (simp_all add: volume_factor_def field_simps)
  ultimately show ?thesis by simp
qed

theorem tick_perturbation_bounded_witness:
  "\<not> loading example_feed \<and> 2 < length (data example_feed)
   \<and> 0 \<le> rnd_const 0 (2 * 2) \<and> rnd_const 0 (2 * 2) \<le> 1
   \<and> 0 \<le> rnd_const 0 (2 * 2 + 1) \<and> rnd_const 0 (2 * 2 + 1) \<le> 1
   \<and> priceUSD (data (tick (rnd_const 0) example_feed) ! 2) = 4 * 0.99
   \<and> volume24h (data (tick (rnd_const 0) example_feed) ! 2) = 100000 * 0.975"
proof -
  have l: "\<not> loading example_feed" by (simp add: example_feed_def)
  have i: "2 < length (data example_feed)"
    by (simp add: example_feed_def example_tokens_def)
  have r: "0 \<le> rnd_const 0 (2 * 2)" "rnd_const 0 (2 * 2) \<le> 1"
    "0 \<le> rnd_const 0 (2 * 2 + 1)" "rnd_const 0 (2 * 2 + 1) \<le> 1"
    by (simp_all add: rnd_const_def)
  have p: "priceUSD (data example_feed ! 2) = 4" "volume24h (data example_feed ! 2) = 100000"
    by (simp_all add: example_feed_def example_tokens_def example_token_def)
  have v: "rnd_const 0 4 = 0" "rnd_const 0 5 = 0"
    by (simp_all add: rnd_const_def)
  from tick_perturbation_bounded [OF l i r] l i r p
  show ?thesis
    by (simp add: v price_factor_def volume_factor_def)
qed

text \<open>
  Claim C8. On the empty record list the tick is a no-op: the state it returns is the
  state it was given, with an empty record list, and with an empty history in every
  state the hook can be in; the pass over the empty list returns the empty list and
  writes no entry into the history. The functions are total and have no error value,
  as nothing in the tick can throw.
\<close>

theorem tick_empty_noop:
  assumes "data st = []"
  shows "tick rnd st = st \<and> data (tick rnd st) = []
    \<and> (reachable st \<longrightarrow> priceHistory (tick rnd st) = Map.empty)
    \<and> tick_tokens rnd n [] prev = ([], prev)"
proof -
  from assms have "tick rnd st = st" by (simp add: tick_def)
  with assms reachable_empty_history [of st] show ?thesis by simp
qed

theorem tick_empty_noop_witness:
  "data initial_feed = []
   \<and> tick (rnd_const 1) initial_feed = initial_feed
   \<and> data (tick (rnd_const 1) initial_feed) = []
   \<and> priceHistory (tick (rnd_const 1) initial_feed) = Map.empty
   \<and> tick_tokens (rnd_const 1) 0 [] Map.empty = ([], Map.empty)"
proof -
  have d: "data initial_feed = []" by (simp add: initial_feed_def)
  from tick_empty_noop [OF d, of "rnd_const 1" 0 Map.empty] reachable_initial d
  show ?thesis by blast
qed

text \<open>
  Claim C9. A tick keeps the length of the list and the multiset of the ids, and at every
  position it changes no field other than the price and the 24h volume.
\<close>

theorem tick_frame:
  "length (data (tick rnd st)) = length (data st)
   \<and> mset (map id_tok (data (tick rnd st))) = mset (map id_tok (data st))
   \<and> (\<forall>i < length (data st).
        id_tok (data (tick rnd st) ! i) = id_tok (data st ! i)
        \<and> name (data (tick rnd st) ! i) = name (data st ! i)
        \<and> symbol (data (tick rnd st) ! i) = symbol (data st ! i)
        \<and> chain_tok (data (tick rnd st) ! i) = chain_tok (data st ! i)
        \<and> pair (data (tick rnd st) ! i) = pair (data st ! i)
        \<and> status (data (tick rnd st) ! i) = status (data st ! i)
        \<and> marketCap (data (tick rnd st) ! i) = marketCap (data st ! i)
        \<and> liquidity (data (tick rnd st) ! i) = liquidity (data st ! i)
        \<and> launchTime (data (tick rnd st) ! i) = launchTime (data st ! i)
        \<and> score (data (tick rnd st) ! i) = score (data st ! i))"
proof -
  have "\<forall>i < length (data st). \<exists>p v. data (tick rnd st) ! i = (data st ! i)\<lparr>priceUSD := p, volume24h := v\<rparr>"
  proof (intro allI impI)
    fix i assume i: "i < length (data st)"
    show "\<exists>p v. data (tick rnd st) ! i = (data st ! i)\<lparr>priceUSD := p, volume24h := v\<rparr>"
    proof (cases "loading st")
      case True
      then have "tick rnd st = st" by (simp add: tick_def)
      then have "data (tick rnd st) ! i
        = (data st ! i)\<lparr>priceUSD := priceUSD (data st ! i), volume24h := volume24h (data st ! i)\<rparr>"
        by simp
      then show ?thesis by blast
    next
      case False
      from data_tick_nth [OF False i, of rnd] show ?thesis
        unfolding perturbed_def by blast
    qed
  qed
  then have "\<forall>i < length (data st).
        id_tok (data (tick rnd st) ! i) = id_tok (data st ! i)
        \<and> name (data (tick rnd st) ! i) = name (data st ! i)
        \<and> symbol (data (tick rnd st) ! i) = symbol (data st ! i)
        \<and> chain_tok (data (tick rnd st) ! i) = chain_tok (data st ! i)
        \<and> pair (data (tick rnd st) ! i) = pair (data st ! i)
        \<and> status (data (tick rnd st) ! i) = status (data st ! i)
        \<and> marketCap (data (tick rnd st) ! i) = marketCap (data st ! i)
        \<and> liquidity (data (tick rnd st) ! i) = liquidity (data st ! i)
        \<and> launchTime (data (tick rnd st) ! i) = launchTime (data st ! i)
        \<and> score (data (tick rnd st) ! i) = score (data st ! i)"
    by fastforce
  then show ?thesis
    by (simp add: data_tick_length data_tick_ids)
qed

theorem tick_frame_witness:
  "(1::nat) < length (data example_feed)
   \<and> length (data (tick (rnd_const 1) example_feed)) = 3
   \<and> id_tok (data (tick (rnd_const 1) example_feed) ! 1) = ''token-1''
   \<and> status (data (tick (rnd_const 1) example_feed) ! 1) = Final_Stretch
   \<and> marketCap (data (tick (rnd_const 1) example_feed) ! 1) = 1000000"
proof -
  have i: "(1::nat) < length (data example_feed)"
    by (simp add: example_feed_def example_tokens_def)
  from tick_frame [of "rnd_const 1" example_feed] i
  have "id_tok (data (tick (rnd_const 1) example_feed) ! 1) = id_tok (data example_feed ! 1)
    \<and> status (data (tick (rnd_const 1) example_feed) ! 1) = status (data example_feed ! 1)
    \<and> marketCap (data (tick (rnd_const 1) example_feed) ! 1) = marketCap (data example_feed ! 1)
    \<and> length (data (tick (rnd_const 1) example_feed)) = length (data example_feed)"
    by blast
  with i show ?thesis
    by (simp add: example_feed_def example_tokens_def example_token_def)
qed

subsection \<open>Sorting\<close>

lemma mset_insert_by: "mset (insert_by cmp x xs) = add_mset x (mset xs)"
  by (induction xs) simp_all

lemma mset_sort_by: "mset (sort_by cmp xs) = mset xs"
  by (induction xs) (simp_all add: mset_insert_by)

lemma mset_sortedTokens: "mset (sortedTokens tokens st) = mset tokens"
  by (simp add: sortedTokens_def mset_sort_by split: option.splits)

text \<open>
  The stage of a token is a string at run time, so the comparator takes its second
  branch for the key \<^verbatim>\<open>'status'\<close>; the third branch, with the rank order, is never
  reached. A record of stage \<open>New pairs\<close> is put behind a record of any other stage.
\<close>

lemma compare_tokens_status:
  "compare_tokens K_status d a b =
     (if d = Asc then 1 else - 1)
       * real_of_int (localeCompare (status_label (status a)) (status_label (status b)))"
  by (simp add: compare_tokens_def)

lemma sortedTokens_status_new_pairs_last:
  "status a = New_pairs \<Longrightarrow> status b \<noteq> New_pairs \<Longrightarrow>
   sortedTokens [a, b] sort_by_status = [b, a]"
  by (cases "status b") (simp_all add: sortedTokens_def sort_by_status_def compare_tokens_status)

text \<open>
  Claim C1. Sorting by the key \<^verbatim>\<open>'status'\<close>, ascending, should put every record of stage
  \<open>New pairs\<close> before every record of stage \<open>Final Stretch\<close>, and those before every record
  of stage \<open>Migrated\<close>. The code does not: on a list of three records that is already in
  this order, it returns the stages in the alphabetical order of their labels, with
  \<open>New pairs\<close> last.
\<close>

theorem sortedTokens_status_alphabetical:
  "map status (sortedTokens example_tokens sort_by_status) = [Final_Stretch, Migrated, New_pairs]"
  by (simp add: sortedTokens_def sort_by_status_def example_tokens_def example_token_def
      compare_tokens_def)

text \<open>
  Claim C10. With no active sort key the sorted list is the input list itself.
\<close>

theorem sortedTokens_no_key:
  "sortedTokens tokens (st\<lparr>key := None\<rparr>) = tokens"
  by (simp add: sortedTokens_def)

subsection \<open>The sort state\<close>

lemma typeof_field:
  "typeof (field k t) =
     (if k \<in> {K_id, K_name, K_symbol, K_chain, K_pair, K_status} then T_string else T_number)"
  by (cases k) simp_all

lemma handleSort_same_key:
  "key prev = Some k \<Longrightarrow>
   handleSort tokens k prev = \<lparr>key = Some k, direction = (if direction prev = Asc then Desc else Asc)\<rparr>"
  by (simp add: handleSort_def)

lemma handleSort_new_key_nonempty:
  "key prev \<noteq> Some k \<Longrightarrow> tokens \<noteq> [] \<Longrightarrow>
   handleSort tokens k prev =
     \<lparr>key = Some k,
      direction = (if k \<in> {K_marketCap, K_priceUSD, K_volume24h, K_liquidity, K_launchTime, K_score}
                   then Desc else Asc)\<rparr>"
  by (cases tokens; cases k) (simp_all add: handleSort_def typeof_first_def)

lemma handleSort_new_key_empty:
  "key prev \<noteq> Some k \<Longrightarrow>
   handleSort [] k prev = \<lparr>key = Some k, direction = (if k = K_status then Asc else Desc)\<rparr>"
  by (simp add: handleSort_def typeof_first_def)

text \<open>
  Claim C4. A click on the active key flips the direction; a click on another key should
  reset the direction to descending for a numeric key and to ascending for a textual key
  and for the stage key. The lemmas above show that the code does so on every non-empty
  list. On the empty list, which it holds until the load has happened, the code resets to
  descending for the textual key \<^verbatim>\<open>'name'\<close>.
\<close>

theorem handleSort_empty_list_textual:
  "handleSort [] K_name default_sortState = \<lparr>key = Some K_name, direction = Desc\<rparr>"
  by (simp add: handleSort_def default_sortState_def typeof_first_def)

subsection \<open>Filtering by stage\<close>

text \<open>
  Claim C5. With the selection \<open>All\<close> the filter returns the list as it is; with a stage
  it returns exactly the records of that stage, in the order they have in the list: the
  result is the list with the other records dropped, a subsequence of it.
\<close>

theorem filteredTokens_selection:
  "filteredTokens xs All = xs
   \<and> filteredTokens xs (Stage s) = filter (\<lambda>t. status t = s) xs
   \<and> set (filteredTokens xs (Stage s)) = {t \<in> set xs. status t = s}
   \<and> subseq (filteredTokens xs activeTab) xs"
  by (cases activeTab) (simp_all add: filteredTokens_def)

lemma mset_stage_filters:
  "mset (filter (\<lambda>t. status t = New_pairs) xs) + mset (filter (\<lambda>t. status t = Final_Stretch) xs)
     + mset (filter (\<lambda>t. status t = Migrated) xs) = mset xs"
proof (induction xs)
  case Nil
  show ?case by simp
next
  case (Cons x xs)
  then show ?case by (cases "status x") simp_all
qed

text \<open>
  Claim C6. The three per-stage subsets partition the list: as multisets they add up to
  the list, each holds only records of its stage, and every record of the list is in the
  subset of exactly one stage.
\<close>

theorem stage_tabs_partition:
  "mset (filteredTokens xs (Stage New_pairs)) + mset (filteredTokens xs (Stage Final_Stretch))
     + mset (filteredTokens xs (Stage Migrated)) = mset xs
   \<and> (\<forall>s. \<forall>t \<in> set (filteredTokens xs (Stage s)). status t = s)
   \<and> (\<forall>t \<in> set xs. \<exists>!s. t \<in> set (filteredTokens xs (Stage s)))"
  using mset_stage_filters [of xs] by (auto simp: filteredTokens_def)

theorem stage_tabs_partition_witness:
  "example_token ''token-1'' Final_Stretch 2 \<in> set example_tokens
   \<and> filteredTokens example_tokens (Stage Final_Stretch) = [example_token ''token-1'' Final_Stretch 2]
   \<and> (\<exists>!s. example_token ''token-1'' Final_Stretch 2 \<in> set (filteredTokens example_tokens (Stage s)))"
proof -
  have m: "example_token ''token-1'' Final_Stretch 2 \<in> set example_tokens"
    by (simp add: example_tokens_def)
  have f: "filteredTokens example_tokens (Stage Final_Stretch) = [example_token ''token-1'' Final_Stretch 2]"
    by (simp add: filteredTokens_def example_tokens_def example_token_def)
  from stage_tabs_partition [of example_tokens] m
  have "\<exists>!s. example_token ''token-1'' Final_Stretch 2 \<in> set (filteredTokens example_tokens (Stage s))"
    by blast
  with m f show ?thesis by blast
qed

subsection \<open>The initial list\<close>

text \<open>
  Claim C3, as stated: the record at index \<open>i\<close> has the stage at position \<open>i mod 3\<close> of
  the stage sequence. It fails at index 1, where the stage is the first one.
\<close>

theorem mockTokens_round_robin_counterexample:
  "status (mockTokens rnd_zero now_zero ! 1) \<noteq> stage_sequence ! (1 mod 3)"
  by (simp add: mockTokens_nth mockToken_def stage_sequence_def)

text \<open>
  Claim C3, amended: the list has 15 records and the stages come in three blocks of five,
  the record at index \<open>i\<close> having the stage at position \<open>i div 5\<close> of the stage sequence.
\<close>

theorem mockTokens_stage_blocks:
  assumes "i < 15"
  shows "length (mockTokens rnd now) = 15
    \<and> status (mockTokens rnd now ! i) = stage_sequence ! (i div 5)"
proof -
  from assms have "i div 5 = 0 \<and> i < 5 \<or> i div 5 = 1 \<and> 5 \<le> i \<and> i < 10 \<or> i div 5 = 2 \<and> 10 \<le> i"
    by presburger
  with assms show ?thesis
    by (auto simp: length_mockTokens mockTokens_nth mockToken_def stage_sequence_def)
qed

theorem mockTokens_stage_blocks_witness:
  "(7::nat) < 15 \<and> length (mockTokens rnd_zero now_zero) = 15
   \<and> status (mockTokens rnd_zero now_zero ! 7) = Final_Stretch"
proof -
  have h: "(7::nat) < 15" by simp
  from mockTokens_stage_blocks [OF h, of rnd_zero now_zero] h
  show ?thesis by (simp add: stage_sequence_def)
qed

end
